theory Spec2Isabelle
  imports Main "HOL-Library.Word"
begin

section \<open>Values exchanged over the socket\<close>

text \<open>
  A decoded JSON frame is whatever \<^verbatim>\<open>json.loads\<close> returns: \<^verbatim>\<open>None\<close>, a bool, a
  number, a \<^verbatim>\<open>str\<close>, a \<^verbatim>\<open>list\<close> or a \<^verbatim>\<open>dict\<close>. A dict is kept as the list of its
  items (keys distinct); the code below only looks keys up and compares with \<^verbatim>\<open>{}\<close>.
  The payload of a number is never inspected by the code modelled here.
\<close>

datatype json =
    JNull
  | JBool bool
  | JNum int
  | JStr string
  | JArr "json list"
  | JObj "(string \<times> json) list"

type_synonym bytes = "8 word list"

text \<open>The Python exceptions that the modelled code raises, catches or lets through.\<close>

datatype pyerror =
    KeyError
  | TypeError
  | IndexError
  | AttributeError
  | JSONDecodeError
  | WebSocketDisconnect
  | UserDoesNotExist string
  | PasswordIncorrectException string

text \<open>The outcome of an awaited library call: it raises, or it returns a value.\<close>

datatype 'a outcome = Raises pyerror | Returns 'a

text \<open>What a handler does on the connection, in order.\<close>

datatype event =
    SendJson json
  | SendBytes bytes
  | Close

text \<open>The two classes that \<^verbatim>\<open>verify_field\<close> is called with.\<close>

datatype pytype = PyStr | PyDict

fun isinstance :: "json \<Rightarrow> pytype \<Rightarrow> bool" where
  "isinstance (JStr s) PyStr = True"
| "isinstance (JObj kv) PyDict = True"
| "isinstance v t = False"

text \<open>\<^verbatim>\<open>a in b\<close> for two Python strings: \<^verbatim>\<open>a\<close> occurs in \<^verbatim>\<open>b\<close> as a contiguous run.\<close>

fun str_contains :: "string \<Rightarrow> string \<Rightarrow> bool" where
  "str_contains [] p = (p = [])"
| "str_contains (c # cs) p = (take (length p) (c # cs) = p \<or> str_contains cs p)"

text \<open>
  \<^verbatim>\<open>field in data\<close> with \<^verbatim>\<open>field\<close> a string: key membership for a dict, element
  membership for a list, substring test for a string, \<^verbatim>\<open>TypeError\<close> for
  \<^verbatim>\<open>None\<close>, bools and numbers (not iterable).
\<close>

fun py_in :: "string \<Rightarrow> json \<Rightarrow> pyerror + bool" where
  "py_in field (JObj kv) = Inr (map_of kv field \<noteq> None)"
| "py_in field (JArr xs) = Inr (JStr field \<in> set xs)"
| "py_in field (JStr s) = Inr (str_contains s field)"
| "py_in field v = Inl TypeError"

text \<open>
  \<^verbatim>\<open>data[field]\<close> with \<^verbatim>\<open>field\<close> a string: the value for a dict (\<^verbatim>\<open>KeyError\<close> when
  absent), \<^verbatim>\<open>TypeError\<close> for everything else (list and string indices must be
  integers, the rest is not subscriptable).
\<close>

fun py_getitem :: "json \<Rightarrow> string \<Rightarrow> pyerror + json" where
  "py_getitem (JObj kv) field =
     (case map_of kv field of None \<Rightarrow> Inl KeyError | Some v \<Rightarrow> Inr v)"
| "py_getitem v field = Inl TypeError"

section \<open>Framing and validation (ws\_worker.py)\<close>

text \<open>
  \<^verbatim>\<open>verify_field(data, field, field_type)\<close>. The source annotates \<^verbatim>\<open>data\<close> as a dict
  but is called with whatever \<^verbatim>\<open>receive_json\<close> returned, so every step that can
  raise on a non-dict is a branch here.
\<close>

definition verify_field :: "json \<Rightarrow> string \<Rightarrow> pytype \<Rightarrow> pyerror + bool" where
  "verify_field data field field_type =
     (case py_in field data of
        Inl e \<Rightarrow> Inl e
      | Inr present \<Rightarrow>
          if \<not> present then Inr False
          else (case py_getitem data field of
                  Inl e \<Rightarrow> Inl e
                | Inr v \<Rightarrow>
                    if v = JNull then Inr False
                    else if \<not> isinstance v field_type then Inr False
                    else Inr True))"

text \<open>
  The class attribute \<^verbatim>\<open>WsWorker.workers\<close>: one entry, \<^verbatim>\<open>"users"\<close>, whose value is the
  class \<^verbatim>\<open>UsersWorker\<close>.
\<close>

datatype worker_class = UsersWorker

definition workers :: "(string \<times> worker_class) list" where
  "workers = [(''users'', UsersWorker)]"

definition error_reply :: "string \<Rightarrow> json" where
  "error_reply msg = JObj [(''error'', JStr msg)]"

text \<open>
  A call either returns or raises, after the events it caused. The source of
  \<^verbatim>\<open>UsersWorker\<close> is not part of the modelled files, so what the call
  \<^verbatim>\<open>self.workers[target].handle_message(data)\<close> does is the parameter \<open>hm\<close>.
\<close>

type_synonym call_result = "event list \<times> pyerror option"

definition direct_message ::
  "(worker_class \<Rightarrow> json \<Rightarrow> call_result) \<Rightarrow> string \<Rightarrow> json \<Rightarrow> call_result" where
  "direct_message hm target data =
     (case map_of workers target of
        None \<Rightarrow> ([SendJson (error_reply ''Target not found.'')], None)
      | Some w \<Rightarrow> hm w data)"

text \<open>
  One pass through the body of the \<^verbatim>\<open>while True\<close> loop of \<^verbatim>\<open>WsWorker.run\<close> after
  \<^verbatim>\<open>receive_json\<close> returned \<open>content\<close>. A result \<open>(evs, None)\<close> is a \<^verbatim>\<open>continue\<close>
  (or the end of the body); \<open>(evs, Some e)\<close> is an exception leaving the loop.
\<close>

definition run_body ::
  "(worker_class \<Rightarrow> json \<Rightarrow> call_result) \<Rightarrow> json \<Rightarrow> call_result" where
  "run_body hm content =
     (if content = JObj [] then ([SendJson (error_reply ''No data provided.'')], None)
      else (case verify_field content ''target'' PyStr of
        Inl e \<Rightarrow> ([], Some e)
      | Inr False \<Rightarrow>
          ([SendJson (error_reply ''No target provided or target invalid.'')], None)
      | Inr True \<Rightarrow>
         (case verify_field content ''data'' PyDict of
            Inl e \<Rightarrow> ([], Some e)
          | Inr False \<Rightarrow>
              ([SendJson (error_reply ''No data provided or data invalid.'')], None)
          | Inr True \<Rightarrow>
             (case py_getitem content ''target'' of
                Inl e \<Rightarrow> ([], Some e)
              | Inr target \<Rightarrow>
                 if target = JStr ''ping'' then ([SendJson (JObj [(''target'', JStr ''pong'')])], None)
                 else (case py_getitem content ''data'' of
                   Inl e \<Rightarrow> ([], Some e)
                 | Inr data \<Rightarrow>
                    (case verify_field data ''action'' PyStr of
                       Inl e \<Rightarrow> ([], Some e)
                     | Inr False \<Rightarrow>
                         ([SendJson (error_reply ''No action provided or action invalid.'')], None)
                     | Inr True \<Rightarrow>
                        (case verify_field data ''data'' PyDict of
                           Inl e \<Rightarrow> ([], Some e)
                         | Inr False \<Rightarrow>
                             ([SendJson (error_reply ''No data provided or data invalid.'')], None)
                         | Inr True \<Rightarrow>
                            (case target of
                               JStr t \<Rightarrow> direct_message hm t data
                             | _ \<Rightarrow> ([], Some TypeError)))))))))"

text \<open>
  How \<^verbatim>\<open>run\<close> ended on a finite prefix of what the socket delivers: it returned
  (after a disconnect), an exception left it, or it is waiting in \<^verbatim>\<open>receive_json\<close>
  for the next frame.
\<close>

datatype run_status = Returned | Raised pyerror | AwaitingReceive

text \<open>
  \<^verbatim>\<open>WsWorker.run\<close>. The list holds the outcomes of the successive
  \<^verbatim>\<open>await self.connection.receive_json()\<close> calls. Only \<^verbatim>\<open>WebSocketDisconnect\<close> and
  \<^verbatim>\<open>KeyError\<close> have an \<^verbatim>\<open>except\<close> clause; nothing after the \<^verbatim>\<open>try\<close> is guarded.
\<close>

fun run ::
  "(worker_class \<Rightarrow> json \<Rightarrow> call_result) \<Rightarrow> json outcome list \<Rightarrow> event list \<times> run_status" where
  "run hm [] = ([], AwaitingReceive)"
| "run hm (Raises e # rest) =
     (if e = WebSocketDisconnect then ([Close], Returned)
      else if e = KeyError then
        (let (evs, st) = run hm rest in (SendJson (error_reply ''Invalid data.'') # evs, st))
      else ([], Raised e))"
| "run hm (Returns content # rest) =
     (case run_body hm content of
        (evs, Some e) \<Rightarrow> (evs, Raised e)
      | (evs, None) \<Rightarrow> (let (evs', st) = run hm rest in (evs @ evs', st)))"

section \<open>Admin authentication (admin\_worker.py)\<close>

text \<open>
  A connection is identified by its \<^verbatim>\<open>WebSocket\<close> object, the key of both module-level
  dicts: \<^verbatim>\<open>admins\<close> (connection to expiry time) and \<^verbatim>\<open>waitlist\<close> (connection to
  the list of retry-not-before times). A \<^verbatim>\<open>datetime\<close> is a count of microseconds.
\<close>

type_synonym conn = nat
type_synonym datetime = int

record admin_state =
  admins :: "conn \<rightharpoonup> datetime"
  waitlist :: "conn \<rightharpoonup> datetime list"

text \<open>
  The class \<^verbatim>\<open>CfAuth\<close> of config/models/auth.py: its \<^verbatim>\<open>__slots__\<close> are exactly
  these seven names, so an instance has no other attribute. The values are copied from
  the settings and are taken to be integers here; the code below reads three of them.
\<close>

record CfAuth =
  secret_key :: int
  key_expires :: int
  key_size :: int
  fail_wait_time :: int
  max_fail_attempts :: int
  fail_lock_time :: int
  admin_auth_timeout :: int

text \<open>Reading the attribute \<open>name\<close> of a \<^verbatim>\<open>CfAuth\<close> instance.\<close>

definition CfAuth_getattr :: "CfAuth \<Rightarrow> string \<Rightarrow> pyerror + int" where
  "CfAuth_getattr c name =
     (if name = ''secret_key'' then Inr (secret_key c)
      else if name = ''key_expires'' then Inr (key_expires c)
      else if name = ''key_size'' then Inr (key_size c)
      else if name = ''fail_wait_time'' then Inr (fail_wait_time c)
      else if name = ''max_fail_attempts'' then Inr (max_fail_attempts c)
      else if name = ''fail_lock_time'' then Inr (fail_lock_time c)
      else if name = ''admin_auth_timeout'' then Inr (admin_auth_timeout c)
      else Inl AttributeError)"

text \<open>
  \<^verbatim>\<open>timedelta(seconds=n)\<close>, in microseconds. Python's \<^verbatim>\<open>timedelta\<close> and \<^verbatim>\<open>datetime\<close>
  have a bounded range (\<^verbatim>\<open>OverflowError\<close> beyond 999999999 days, or past the year 9999);
  the integers here are unbounded, so the model is the code's for offsets and clocks
  inside that range.
\<close>

definition timedelta_seconds :: "int \<Rightarrow> int" where
  "timedelta_seconds n = n * 1000000"

text \<open>
  Subscripting a Python list with an integer: positions \<open>0 .. len - 1\<close> read forwards,
  \<open>- len .. - 1\<close> read from the back, anything else is an \<^verbatim>\<open>IndexError\<close>.
\<close>

definition list_getitem :: "'a list \<Rightarrow> int \<Rightarrow> pyerror + 'a" where
  "list_getitem xs i =
     (if 0 \<le> i \<and> i < int (length xs) then Inr (xs ! nat i)
      else if i < 0 \<and> - int (length xs) \<le> i then Inr (xs ! nat (int (length xs) + i))
      else Inl IndexError)"

text \<open>
  What one run of \<^verbatim>\<open>_auth\<close> reads from outside: the clock at the waitlist check,
  the random token, what \<^verbatim>\<open>receive_bytes\<close> did, and the clock when the result is
  recorded.
\<close>

record auth_io =
  now_gate :: datetime
  token_bytes :: bytes
  receive_bytes :: "bytes outcome"
  now_result :: datetime

text \<open>The result of a handler method: what it sent, how it ended, the two dicts after.\<close>

type_synonym handler_result = "event list \<times> pyerror option \<times> admin_state"

text \<open>
  The waitlist check at the head of \<^verbatim>\<open>_auth\<close>:
  \<^verbatim>\<open>datetime.now() < waitlist[c][max(len(waitlist[c]) - 1, 0)]\<close> when \<^verbatim>\<open>c in waitlist\<close>.
\<close>

definition auth_must_wait :: "auth_io \<Rightarrow> conn \<Rightarrow> admin_state \<Rightarrow> pyerror + bool" where
  "auth_must_wait io c s =
     (case waitlist s c of
        None \<Rightarrow> Inr False
      | Some l \<Rightarrow>
         (case list_getitem l (max (int (length l) - 1) 0) of
            Inl e \<Rightarrow> Inl e
          | Inr t \<Rightarrow> Inr (now_gate io < t)))"

text \<open>
  The bookkeeping of a failed attempt (the block under "Add the client to the
  waitlist"). \<open>cfg\<close> reads an attribute of \<^verbatim>\<open>CONFIG.auth\<close>.
\<close>

definition auth_record_failure ::
  "(string \<Rightarrow> pyerror + int) \<Rightarrow> auth_io \<Rightarrow> conn \<Rightarrow> admin_state \<Rightarrow> pyerror + admin_state" where
  "auth_record_failure cfg io c s =
     (case waitlist s c of
        Some l \<Rightarrow>
         (case cfg ''max_fail_attempts'' of
            Inl e \<Rightarrow> Inl e
          | Inr m \<Rightarrow>
             if int (length l) \<ge> m then
               (case cfg ''fail_lock_time'' of
                  Inl e \<Rightarrow> Inl e
                | Inr t \<Rightarrow>
                    Inr (s\<lparr>waitlist := (waitlist s)(c \<mapsto> l @ [now_result io + timedelta_seconds t])\<rparr>))
             else
               (case cfg ''fail_timeout'' of
                  Inl e \<Rightarrow> Inl e
                | Inr t \<Rightarrow>
                    Inr (s\<lparr>waitlist := (waitlist s)(c \<mapsto> l @ [now_result io + timedelta_seconds t])\<rparr>)))
      | None \<Rightarrow>
         (case cfg ''fail_timeout'' of
            Inl e \<Rightarrow> Inl e
          | Inr t \<Rightarrow>
              Inr (s\<lparr>waitlist := (waitlist s)(c \<mapsto> [now_result io + timedelta_seconds t])\<rparr>)))"

definition wait_reply :: json where
  "wait_reply = JObj [(''error'', JStr ''You must wait before trying again.'')]"

definition auth_failed_reply :: json where
  "auth_failed_reply =
     JObj [(''target'', JStr ''admin''), (''data'', JObj [(''message'', JStr ''Authentication failed.'')])]"

definition authenticated_reply :: json where
  "authenticated_reply = JObj [(''message'', JStr ''Authenticated.'')]"

text \<open>
  \<^verbatim>\<open>_auth\<close> from the challenge on (everything after the waitlist check). \<open>encrypt\<close>
  is \<^verbatim>\<open>rsa.encrypt\<close> under the owner's public key and \<open>md5\<close> is
  \<^verbatim>\<open>md5(token).digest()\<close>; only \<^verbatim>\<open>WebSocketDisconnect\<close> is caught around
  \<^verbatim>\<open>receive_bytes\<close>.
\<close>

definition auth_challenge ::
  "(string \<Rightarrow> pyerror + int) \<Rightarrow> (bytes \<Rightarrow> bytes) \<Rightarrow> (bytes \<Rightarrow> bytes) \<Rightarrow> conn \<Rightarrow> auth_io
     \<Rightarrow> admin_state \<Rightarrow> handler_result" where
  "auth_challenge cfg encrypt md5 c io s =
     (let token = token_bytes io;
          encrypted_token = encrypt token;
          client_expected = md5 token
      in case receive_bytes io of
           Raises e \<Rightarrow>
             ([SendBytes encrypted_token], if e = WebSocketDisconnect then None else Some e, s)
         | Returns client_actual \<Rightarrow>
             if client_actual \<noteq> client_expected then
               (case auth_record_failure cfg io c s of
                  Inl e \<Rightarrow> ([SendBytes encrypted_token, SendJson auth_failed_reply], Some e, s)
                | Inr s' \<Rightarrow> ([SendBytes encrypted_token, SendJson auth_failed_reply], None, s'))
             else
               (case cfg ''admin_auth_timeout'' of
                  Inl e \<Rightarrow> ([SendBytes encrypted_token], Some e, s)
                | Inr t \<Rightarrow>
                    ([SendBytes encrypted_token, SendJson authenticated_reply], None,
                     s\<lparr>admins := (admins s)(c \<mapsto> now_result io + timedelta_seconds t)\<rparr>)))"

text \<open>\<^verbatim>\<open>AdminWorker._auth\<close>.\<close>

definition auth ::
  "(string \<Rightarrow> pyerror + int) \<Rightarrow> (bytes \<Rightarrow> bytes) \<Rightarrow> (bytes \<Rightarrow> bytes) \<Rightarrow> conn \<Rightarrow> auth_io
     \<Rightarrow> admin_state \<Rightarrow> handler_result" where
  "auth cfg encrypt md5 c io s =
     (case auth_must_wait io c s of
        Inl e \<Rightarrow> ([], Some e, s)
      | Inr True \<Rightarrow> ([SendJson wait_reply], None, s)
      | Inr False \<Rightarrow> auth_challenge cfg encrypt md5 c io s)"

definition not_authenticated_reply :: json where
  "not_authenticated_reply = JObj [(''error'', JStr ''Not authenticated.'')]"

definition logoff_reply :: json where
  "logoff_reply = JObj [(''action'', JStr ''logoff''), (''data'', JObj [(''success'', JBool True)])]"

text \<open>
  \<^verbatim>\<open>AdminWorker._logoff\<close>: membership in \<^verbatim>\<open>admins\<close> is the only test; then
  \<^verbatim>\<open>del admins[c]\<close> and \<^verbatim>\<open>del waitlist[c]\<close>, the second raising \<^verbatim>\<open>KeyError\<close> when the
  connection has no waitlist entry (the first deletion has happened by then).
\<close>

definition logoff :: "conn \<Rightarrow> admin_state \<Rightarrow> handler_result" where
  "logoff c s =
     (if admins s c = None then ([SendJson not_authenticated_reply], None, s)
      else
        (let s1 = s\<lparr>admins := (admins s)(c := None)\<rparr>
         in case waitlist s1 c of
              None \<Rightarrow> ([], Some KeyError, s1)
            | Some l \<Rightarrow> ([SendJson logoff_reply], None, s1\<lparr>waitlist := (waitlist s1)(c := None)\<rparr>)))"

text \<open>
  \<^verbatim>\<open>AdminWorker.handle_message\<close>. \<^verbatim>\<open>_get_user\<close> has an empty body. \<^verbatim>\<open>_get_users\<close> and
  \<^verbatim>\<open>_delete_user\<close> validate with models and call database methods that are not among
  the modelled files; neither mentions \<^verbatim>\<open>admins\<close> or \<^verbatim>\<open>waitlist\<close>, so what they send
  and whether they raise is the parameter \<open>dbact\<close>, and the two dicts pass through.
\<close>

definition handle_message ::
  "(string \<Rightarrow> pyerror + int) \<Rightarrow> (bytes \<Rightarrow> bytes) \<Rightarrow> (bytes \<Rightarrow> bytes)
     \<Rightarrow> (string \<Rightarrow> json \<Rightarrow> call_result) \<Rightarrow> conn \<Rightarrow> auth_io \<Rightarrow> json
     \<Rightarrow> admin_state \<Rightarrow> handler_result" where
  "handle_message cfg encrypt md5 dbact c io data s =
     (case data of
        JObj kv \<Rightarrow>
          (let action = map_of kv ''action'' in
           if action = Some (JStr ''auth'') then auth cfg encrypt md5 c io s
           else if action = Some (JStr ''logoff'') then logoff c s
           else if action = Some (JStr ''get_users'') then
             (fst (dbact ''get_users'' data), snd (dbact ''get_users'' data), s)
           else if action = Some (JStr ''get_user'') then ([], None, s)
           else if action = Some (JStr ''delete_user'') then
             (fst (dbact ''delete_user'' data), snd (dbact ''delete_user'' data), s)
           else ([SendJson (error_reply ''Invalid action.'')], None, s))
      | _ \<Rightarrow> ([], Some AttributeError, s))"

text \<open>
  What happens to the two shared dicts, seen from all connections: a message handled
  for a connection by its admin handler, or a transport disconnect of a connection,
  which ends that connection's receive loop (\<^verbatim>\<open>close\<close>, \<^verbatim>\<open>return\<close>) and touches neither
  dict.
\<close>

datatype admin_op = Message conn auth_io json | Disconnect conn

fun is_logoff_by :: "conn \<Rightarrow> admin_op \<Rightarrow> bool" where
  "is_logoff_by c (Message c' io (JObj kv)) = (c' = c \<and> map_of kv ''action'' = Some (JStr ''logoff''))"
| "is_logoff_by c other = False"

fun admin_step ::
  "(string \<Rightarrow> pyerror + int) \<Rightarrow> (bytes \<Rightarrow> bytes) \<Rightarrow> (bytes \<Rightarrow> bytes)
     \<Rightarrow> (string \<Rightarrow> json \<Rightarrow> call_result) \<Rightarrow> admin_op \<Rightarrow> admin_state \<Rightarrow> admin_state" where
  "admin_step cfg encrypt md5 dbact (Message c io data) s =
     snd (snd (handle_message cfg encrypt md5 dbact c io data s))"
| "admin_step cfg encrypt md5 dbact (Disconnect c) s = s"

fun admin_steps ::
  "(string \<Rightarrow> pyerror + int) \<Rightarrow> (bytes \<Rightarrow> bytes) \<Rightarrow> (bytes \<Rightarrow> bytes)
     \<Rightarrow> (string \<Rightarrow> json \<Rightarrow> call_result) \<Rightarrow> admin_op list \<Rightarrow> admin_state \<Rightarrow> admin_state" where
  "admin_steps cfg encrypt md5 dbact [] s = s"
| "admin_steps cfg encrypt md5 dbact (x # xs) s =
     admin_steps cfg encrypt md5 dbact xs (admin_step cfg encrypt md5 dbact x s)"

section \<open>Persistence handlers (secure\_handler.py, user\_handler.py)\<close>

text \<open>
  A table is the list of its rows, a \<^verbatim>\<open>UUID\<close> a number. \<^verbatim>\<open>fetchone\<close> on a
  \<^verbatim>\<open>SELECT ... WHERE\<close> is the first matching row or \<^verbatim>\<open>None\<close>.
\<close>

type_synonym uuid = nat

record verification_code_row =
  vc_id :: uuid
  vc_created_at :: datetime
  vc_user_id :: uuid
  vc_code :: string
  vc_expires :: datetime

record user_row =
  u_id :: uuid
  u_created_at :: datetime
  u_email :: string

record password_row =
  p_user_id :: uuid
  p_hash :: string
  p_last_updated :: datetime

record token_row =
  t_id :: uuid
  t_created_at :: datetime
  t_user_id :: uuid
  t_type :: int

record database =
  users :: "user_row list"
  passwords :: "password_row list"
  tokens :: "token_row list"
  verification_codes :: "verification_code_row list"

text \<open>
  \<^verbatim>\<open>timedelta(days=d, hours=h)\<close>, in microseconds, with the same remark on the range
  as for \<open>timedelta_seconds\<close>.
\<close>

definition timedelta_days_hours :: "int \<Rightarrow> int \<Rightarrow> int" where
  "timedelta_days_hours d h = (d * 86400 + h * 3600) * 1000000"

text \<open>
  The \<^verbatim>\<open>while 1\<close> loop of \<^verbatim>\<open>make_verification_code\<close>. Each pass draws a code
  (\<open>rng i\<close> is the \<open>i\<close>-th result of \<^verbatim>\<open>token_urlsafe(256)\<close>), selects the rows of
  the table \<^emph>\<open>with this user id\<close> (the drawn code is not part of the query) and
  breaks when \<^verbatim>\<open>fetchone\<close> gives no row. Nothing in the loop writes to the table. The
  value \<open>None\<close> is a loop that never ends.
\<close>

partial_function (option) code_loop ::
  "verification_code_row list \<Rightarrow> uuid \<Rightarrow> (nat \<Rightarrow> string) \<Rightarrow> nat \<Rightarrow> string option" where
  "code_loop tbl user_id rng i =
     (case find (\<lambda>r. vc_user_id r = user_id) tbl of
        None \<Rightarrow> Some (rng i)
      | Some row \<Rightarrow> code_loop tbl user_id rng (Suc i))"

text \<open>
  \<^verbatim>\<open>SecureHandler.make_verification_code\<close>: expiry, the loop, \<^verbatim>\<open>DELETE ... WHERE
  user_id\<close>, \<^verbatim>\<open>INSERT ... RETURNING id, created_at\<close>. The two expiry offsets are
  \<^verbatim>\<open>CONFIG.user_security.verification_expires_days\<close> and \<^verbatim>\<open>..._hours\<close>; \<open>new_id\<close> and
  \<open>created\<close> are the id and creation time the database gives the inserted row.
\<close>

definition make_verification_code ::
  "int \<Rightarrow> int \<Rightarrow> datetime \<Rightarrow> (nat \<Rightarrow> string) \<Rightarrow> uuid \<Rightarrow> datetime
     \<Rightarrow> verification_code_row list \<Rightarrow> uuid
     \<Rightarrow> (verification_code_row \<times> verification_code_row list) option" where
  "make_verification_code days hours now rng new_id created tbl user_id =
     (let expires = now + timedelta_days_hours days hours
      in case code_loop tbl user_id rng 0 of
           None \<Rightarrow> None
         | Some code \<Rightarrow>
             (let tbl1 = filter (\<lambda>r. vc_user_id r \<noteq> user_id) tbl;
                  row = \<lparr>vc_id = new_id, vc_created_at = created, vc_user_id = user_id,
                         vc_code = code, vc_expires = expires\<rparr>
              in Some (row, tbl1 @ [row])))"

text \<open>\<^verbatim>\<open>get_verification_code\<close>: the first row with this code, if any.\<close>

definition get_verification_code ::
  "verification_code_row list \<Rightarrow> string \<Rightarrow> verification_code_row option" where
  "get_verification_code tbl validation_token = find (\<lambda>r. vc_code r = validation_token) tbl"

text \<open>\<^verbatim>\<open>UsersHandler.email_exists\<close> and \<^verbatim>\<open>email_get\<close> (the latter returns id and creation time).\<close>

definition email_exists :: "database \<Rightarrow> string \<Rightarrow> bool" where
  "email_exists db email = (find (\<lambda>r. u_email r = email) (users db) \<noteq> None)"

definition email_get :: "database \<Rightarrow> string \<Rightarrow> pyerror + (uuid \<times> datetime)" where
  "email_get db email =
     (case find (\<lambda>r. u_email r = email) (users db) of
        None \<Rightarrow> Inl (UserDoesNotExist email)
      | Some r \<Rightarrow> Inr (u_id r, u_created_at r))"

text \<open>
  \<^verbatim>\<open>SecureHandler.get_password(self, user_id)\<close>, applied to the list of positional
  arguments of a call: any number other than one is a \<^verbatim>\<open>TypeError\<close> at the call. The
  fetched row has the selected columns \<^verbatim>\<open>hash\<close> and \<^verbatim>\<open>last_updated\<close>; the method reads
  \<^verbatim>\<open>row["password"]\<close>.
\<close>

fun get_password :: "database \<Rightarrow> uuid list \<Rightarrow> pyerror + (json \<times> json) option" where
  "get_password db [user_id] =
     (case find (\<lambda>r. p_user_id r = user_id) (passwords db) of
        None \<Rightarrow> Inr None
      | Some r \<Rightarrow>
         (let row = JObj [(''hash'', JStr (p_hash r)), (''last_updated'', JNum (p_last_updated r))]
          in case py_getitem row ''password'' of
               Inl e \<Rightarrow> Inl e
             | Inr h \<Rightarrow>
                (case py_getitem row ''last_updated'' of
                   Inl e \<Rightarrow> Inl e
                 | Inr t \<Rightarrow> Inr (Some (h, t)))))"
| "get_password db args = Inl TypeError"

text \<open>\<^verbatim>\<open>await x\<close> for a value that is not awaitable (here the bool of a plain function).\<close>

definition await_plain :: "'a \<Rightarrow> pyerror + 'a" where
  "await_plain x = Inl TypeError"

text \<open>\<^verbatim>\<open>SecureHandler.new_token\<close>: insert a row, return it with the new table.\<close>

definition new_token :: "uuid \<Rightarrow> datetime \<Rightarrow> database \<Rightarrow> uuid \<Rightarrow> int \<Rightarrow> token_row \<times> database" where
  "new_token new_id created db user_id token_type =
     (let row = \<lparr>t_id = new_id, t_created_at = created, t_user_id = user_id, t_type = token_type\<rparr>
      in (row, db\<lparr>tokens := tokens db @ [row]\<rparr>))"

text \<open>
  \<^verbatim>\<open>UsersHandler.session_new\<close>. The password check is the expression
  \<^verbatim>\<open>await self.secure.verify_password(password, await self.secure.get_password())\<close>:
  \<^verbatim>\<open>get_password\<close> is called with no argument, and \<^verbatim>\<open>verify_password\<close> is a plain static
  method whose bool is awaited. \<open>crypt_verify\<close> is \<^verbatim>\<open>crypt_context.verify\<close>.
\<close>

definition session_new ::
  "(string \<Rightarrow> (json \<times> json) option \<Rightarrow> pyerror + bool) \<Rightarrow> uuid \<Rightarrow> datetime \<Rightarrow> database
     \<Rightarrow> string \<Rightarrow> string \<Rightarrow> pyerror + (token_row \<times> database)" where
  "session_new crypt_verify new_id created db email password =
     (if \<not> email_exists db email then Inl (UserDoesNotExist email)
      else
        (case email_get db email of
           Inl e \<Rightarrow> Inl e
         | Inr user \<Rightarrow>
            (case get_password db [] of
               Inl e \<Rightarrow> Inl e
             | Inr stored \<Rightarrow>
                (case crypt_verify password stored of
                   Inl e \<Rightarrow> Inl e
                 | Inr r \<Rightarrow>
                    (case await_plain r of
                       Inl e \<Rightarrow> Inl e
                     | Inr ok \<Rightarrow>
                        if \<not> ok then Inl (PasswordIncorrectException email)
                        else Inr (new_token new_id created db (fst user) 0))))))"

section \<open>Concrete inputs\<close>

text \<open>
  A configuration, the outside of one \<^verbatim>\<open>_auth\<close> run, the two dicts with at most an
  entry for connection 1, and a database with one user who has a stored password.
\<close>

definition example_conf :: CfAuth where
  "example_conf = \<lparr>secret_key = 0, key_expires = 0, key_size = 0, fail_wait_time = 30,
                    max_fail_attempts = 3, fail_lock_time = 600, admin_auth_timeout = 900\<rparr>"

definition example_io :: "datetime \<Rightarrow> bytes outcome \<Rightarrow> auth_io" where
  "example_io now resp = \<lparr>now_gate = now, token_bytes = [1, 2, 3], receive_bytes = resp, now_result = now\<rparr>"

definition example_state :: "datetime option \<Rightarrow> datetime list option \<Rightarrow> admin_state" where
  "example_state a w = \<lparr>admins = Map.empty(1 := a), waitlist = Map.empty(1 := w)\<rparr>"

definition example_db :: database where
  "example_db = \<lparr>users = [\<lparr>u_id = 1, u_created_at = 0, u_email = ''a@b.c''\<rparr>],
                  passwords = [\<lparr>p_user_id = 1, p_hash = ''h'', p_last_updated = 0\<rparr>],
                  tokens = [], verification_codes = []\<rparr>"

section \<open>Routing and framing: results\<close>

lemma workers_admin: "map_of workers ''admin'' = None"
  by (simp add: workers_def)

text \<open>
  C1. An envelope whose target is "admin" is not forwarded to any handler: the
  registry has the single key "users", so \<^verbatim>\<open>direct_message\<close> answers
  \<^verbatim>\<open>{"error": "Target not found."}\<close> whatever the inner object is.
\<close>

theorem direct_message_admin_not_found:
  "direct_message hm ''admin'' data = ([SendJson (JObj [(''error'', JStr ''Target not found.'')])], None)"
  by (simp add: direct_message_def workers_admin error_reply_def)

lemma run_body_admin:
  "run_body hm (JObj [(''target'', JStr ''admin''),
                      (''data'', JObj [(''action'', JStr ''logoff''), (''data'', JObj [])])])
   = ([SendJson (error_reply ''Target not found.'')], None)"
  by (simp add: run_body_def verify_field_def direct_message_def workers_admin)

text \<open>
  C6. The frame \<^verbatim>\<open>{"target": "ping"}\<close> with no other field is answered with
  \<^verbatim>\<open>{"error": "No data provided or data invalid."}\<close>: the check of the \<^verbatim>\<open>data\<close> field
  comes before the comparison with "ping". Nothing is routed to a handler.
\<close>

theorem run_ping_without_data:
  "run hm [Returns (JObj [(''target'', JStr ''ping'')])]
   = ([SendJson (JObj [(''error'', JStr ''No data provided or data invalid.'')])], AwaitingReceive)"
  by (simp add: run_body_def verify_field_def error_reply_def)

lemma run_ping_with_data:
  "run hm [Returns (JObj [(''target'', JStr ''ping''), (''data'', JObj kv)])]
   = ([SendJson (JObj [(''target'', JStr ''pong'')])], AwaitingReceive)"
  by (simp add: run_body_def verify_field_def)

text \<open>
  What the receive loop does guard: the empty object is answered before any
  field check, a \<^verbatim>\<open>KeyError\<close> from the receive step is answered with "Invalid data.",
  and in both cases the loop goes on with the next frame.
\<close>

lemma run_empty_object:
  "run hm (Returns (JObj []) # rest)
   = (SendJson (error_reply ''No data provided.'') # fst (run hm rest), snd (run hm rest))"
  by (simp add: run_body_def split: prod.splits)

lemma run_key_error:
  "run hm (Raises KeyError # rest)
   = (SendJson (error_reply ''Invalid data.'') # fst (run hm rest), snd (run hm rest))"
  by (simp split: prod.splits)

text \<open>
  C7. Frames that decode, but not to an object, are not answered with "Invalid data.":
  the number 5 makes \<^verbatim>\<open>"target" not in content\<close> raise \<^verbatim>\<open>TypeError\<close>, which leaves
  the loop with nothing sent; the empty array is answered with the missing-target
  message; and a decode error other than \<^verbatim>\<open>KeyError\<close> leaves the loop as well, the
  following frame (here a ping) never being served.
\<close>

theorem run_non_object_frames:
  "run hm [Returns (JNum 5), Returns (JObj [])] = ([], Raised TypeError)
   \<and> run hm [Returns (JArr [])]
       = ([SendJson (JObj [(''error'', JStr ''No target provided or target invalid.'')])], AwaitingReceive)
   \<and> run hm [Raises JSONDecodeError, Returns (JObj [])] = ([], Raised JSONDecodeError)"
  by (simp add: run_body_def verify_field_def error_reply_def)

lemma run_disconnect: "run hm (Raises WebSocketDisconnect # rest) = ([Close], Returned)"
  by simp

section \<open>Admin authentication: results\<close>

lemma CfAuth_no_fail_timeout: "CfAuth_getattr c ''fail_timeout'' = Inl AttributeError"
  by (simp add: CfAuth_getattr_def)

lemma CfAuth_max: "CfAuth_getattr c ''max_fail_attempts'' = Inr (max_fail_attempts c)"
  by (simp add: CfAuth_getattr_def)

lemma auth_must_wait_nonempty:
  "waitlist s c = Some l \<Longrightarrow> l \<noteq> [] \<Longrightarrow> auth_must_wait io c s = Inr (now_gate io < last l)"
  by (cases l rule: rev_cases) (auto simp: auth_must_wait_def list_getitem_def Let_def nth_append)

text \<open>
  C9. A connection whose failure record is non-empty is gated on the \<^emph>\<open>last\<close> recorded
  time: while the clock is before it, \<^verbatim>\<open>_auth\<close> sends
  \<^verbatim>\<open>{"error": "You must wait before trying again."}\<close> and leaves both dicts as they
  were; once it is not, the attempt goes on, the first thing sent being the encrypted
  challenge.
\<close>

theorem auth_gate_uses_last:
  assumes "waitlist s c = Some l" and "l \<noteq> []"
  shows "(now_gate io < last l \<longrightarrow>
            auth cfg encrypt md5 c io s
              = ([SendJson (JObj [(''error'', JStr ''You must wait before trying again.'')])], None, s))
       \<and> (\<not> now_gate io < last l \<longrightarrow>
            auth cfg encrypt md5 c io s = auth_challenge cfg encrypt md5 c io s
            \<and> hd (fst (auth cfg encrypt md5 c io s)) = SendBytes (encrypt (token_bytes io)))"
  using assms
  by (auto simp: auth_def auth_must_wait_nonempty auth_challenge_def wait_reply_def Let_def
           split: outcome.splits sum.splits)

theorem auth_gate_uses_last_witness:
  "auth (CfAuth_getattr example_conf) rev id 1 (example_io 20 (Returns [1, 2, 3]))
        (example_state None (Some [10, 50]))
     = ([SendJson (JObj [(''error'', JStr ''You must wait before trying again.'')])], None,
        example_state None (Some [10, 50]))
   \<and> hd (fst (auth (CfAuth_getattr example_conf) rev id 1 (example_io 20 (Returns [1, 2, 3]))
                 (example_state None (Some [50, 10]))))
     = SendBytes [3, 2, 1]"
  using auth_gate_uses_last [of "example_state None (Some [10, 50])" 1 "[10, 50]"
          "example_io 20 (Returns [1, 2, 3])" "CfAuth_getattr example_conf" rev id]
        auth_gate_uses_last [of "example_state None (Some [50, 10])" 1 "[50, 10]"
          "example_io 20 (Returns [1, 2, 3])" "CfAuth_getattr example_conf" rev id]
  by (simp add: example_state_def example_io_def example_conf_def auth_challenge_def Let_def
        CfAuth_getattr_def)

text \<open>
  The bookkeeping of a failed attempt under a configuration object that has all three
  attributes: \<^verbatim>\<open>fail_lock_time\<close> when the connection has a record whose length has
  reached \<^verbatim>\<open>max_fail_attempts\<close>, \<^verbatim>\<open>fail_timeout\<close> otherwise (a connection with no
  record always gets \<^verbatim>\<open>fail_timeout\<close>).
\<close>

lemma auth_record_failure_complete_config:
  assumes "cfg ''max_fail_attempts'' = Inr m" and "cfg ''fail_lock_time'' = Inr lk"
    and "cfg ''fail_timeout'' = Inr t"
  shows "auth_record_failure cfg io c s =
     Inr (s\<lparr>waitlist := (waitlist s)(c \<mapsto>
        (case waitlist s c of None \<Rightarrow> [] | Some l \<Rightarrow> l) @
        [now_result io + timedelta_seconds
            (case waitlist s c of None \<Rightarrow> t | Some l \<Rightarrow> if int (length l) \<ge> m then lk else t)])\<rparr>)"
  using assms by (auto simp: auth_record_failure_def split: option.splits)

lemma auth_record_failure_locked:
  assumes "waitlist s c = Some l" and "max_fail_attempts conf \<le> int (length l)"
  shows "auth_record_failure (CfAuth_getattr conf) io c s =
           Inr (s\<lparr>waitlist := (waitlist s)(c \<mapsto>
                  l @ [now_result io + timedelta_seconds (fail_lock_time conf)])\<rparr>)"
  using assms by (simp add: auth_record_failure_def CfAuth_getattr_def)

text \<open>
  C3. With \<^verbatim>\<open>CONFIG.auth\<close> an instance of \<^verbatim>\<open>CfAuth\<close>, a failed attempt of a connection
  whose failure count is below \<^verbatim>\<open>max_fail_attempts\<close> (or that has no record) sends the
  "Authentication failed." reply and then raises \<^verbatim>\<open>AttributeError\<close> on reading
  \<^verbatim>\<open>fail_timeout\<close>, which \<^verbatim>\<open>CfAuth\<close> does not have: no time is appended to the failure
  record.
\<close>

theorem auth_failed_attribute_error:
  assumes "auth_must_wait io c s = Inr False"
    and "receive_bytes io = Returns client_actual"
    and "client_actual \<noteq> md5 (token_bytes io)"
    and "case waitlist s c of None \<Rightarrow> True | Some l \<Rightarrow> int (length l) < max_fail_attempts conf"
  shows "auth (CfAuth_getattr conf) encrypt md5 c io s
         = ([SendBytes (encrypt (token_bytes io)),
             SendJson (JObj [(''target'', JStr ''admin''),
                             (''data'', JObj [(''message'', JStr ''Authentication failed.'')])])],
            Some AttributeError, s)"
  using assms
  by (auto simp: auth_def auth_challenge_def auth_record_failure_def auth_failed_reply_def Let_def
                 CfAuth_no_fail_timeout CfAuth_max split: option.splits)

theorem auth_failed_attribute_error_witness:
  "auth (CfAuth_getattr example_conf) rev id 1 (example_io 20 (Returns [9])) (example_state None None)
     = ([SendBytes [3, 2, 1],
         SendJson (JObj [(''target'', JStr ''admin''),
                         (''data'', JObj [(''message'', JStr ''Authentication failed.'')])])],
        Some AttributeError, example_state None None)"
  using auth_failed_attribute_error [of "example_io 20 (Returns [9])" 1 "example_state None None"
          "[9]" id example_conf rev]
  by (simp add: example_state_def example_io_def auth_must_wait_def)

text \<open>
  C4. \<^verbatim>\<open>_logoff\<close> never reads the clock or the stored expiry: a connection whose entry
  has expired (\<open>expires < now\<close>) is not answered with
  \<^verbatim>\<open>{"error": "Not authenticated."}\<close>. Its \<^verbatim>\<open>admins\<close> entry is deleted as for any
  authenticated connection, and what follows depends only on the waitlist.
\<close>

theorem logoff_ignores_expiry:
  assumes "admins s c = Some expires" and "expires < now"
  shows "fst (logoff c s) \<noteq> [SendJson (JObj [(''error'', JStr ''Not authenticated.'')])]
       \<and> logoff c s =
           (case waitlist s c of
              None \<Rightarrow> ([], Some KeyError, s\<lparr>admins := (admins s)(c := None)\<rparr>)
            | Some l \<Rightarrow>
                ([SendJson (JObj [(''action'', JStr ''logoff''),
                                  (''data'', JObj [(''success'', JBool True)])])], None,
                 s\<lparr>admins := (admins s)(c := None), waitlist := (waitlist s)(c := None)\<rparr>))"
  using assms
  by (simp add: logoff_def Let_def logoff_reply_def not_authenticated_reply_def split: option.splits)

theorem logoff_ignores_expiry_witness:
  "snd (snd (auth (CfAuth_getattr example_conf) rev id 1 (example_io 20 (Returns [1, 2, 3]))
               (example_state None None)))
     = example_state (Some 900000020) None
   \<and> (900000020::int) < 900000021
   \<and> fst (logoff 1 (example_state (Some 900000020) None))
       \<noteq> [SendJson (JObj [(''error'', JStr ''Not authenticated.'')])]
   \<and> logoff 1 (example_state (Some 900000020) None) = ([], Some KeyError, example_state None None)"
  using logoff_ignores_expiry [of "example_state (Some 900000020) None" 1 900000020 900000021]
  by (simp add: example_state_def example_io_def example_conf_def auth_def auth_must_wait_def
        auth_challenge_def CfAuth_getattr_def timedelta_seconds_def Let_def)

text \<open>
  C5. For an authenticated connection that never failed an attempt (no waitlist entry),
  \<^verbatim>\<open>_logoff\<close> removes the \<^verbatim>\<open>admins\<close> entry and then raises \<^verbatim>\<open>KeyError\<close> at
  \<^verbatim>\<open>del waitlist[c]\<close>: nothing is sent.
\<close>

theorem logoff_without_failures_key_error:
  assumes "admins s c = Some expires" and "waitlist s c = None"
  shows "logoff c s = ([], Some KeyError, s\<lparr>admins := (admins s)(c := None)\<rparr>)"
  using assms by (simp add: logoff_def Let_def)

theorem logoff_without_failures_key_error_witness:
  "logoff 1 (example_state (Some 900000020) None) = ([], Some KeyError, example_state None None)"
  using logoff_without_failures_key_error [of "example_state (Some 900000020) None" 1 900000020]
  by (simp add: example_state_def)

text \<open>A connection that is not in \<^verbatim>\<open>admins\<close> gets the error reply, and nothing changes.\<close>

lemma logoff_not_authenticated:
  "admins s c = None \<Longrightarrow>
     logoff c s = ([SendJson (JObj [(''error'', JStr ''Not authenticated.'')])], None, s)"
  by (simp add: logoff_def not_authenticated_reply_def)

subsection \<open>The shared dicts only lose entries at logoff\<close>

lemma auth_record_failure_keeps:
  assumes "auth_record_failure cfg io c s = Inr s'"
  shows "admins s' = admins s \<and> dom (waitlist s) \<subseteq> dom (waitlist s')"
  using assms
  by (auto simp: auth_record_failure_def split: option.splits sum.splits if_splits)

lemma auth_challenge_keeps:
  assumes "auth_challenge cfg encrypt md5 c io s = (evs, r, s')"
  shows "dom (admins s) \<subseteq> dom (admins s') \<and> dom (waitlist s) \<subseteq> dom (waitlist s')"
proof (cases "receive_bytes io")
  case (Raises e)
  with assms show ?thesis by (auto simp: auth_challenge_def Let_def)
next
  case (Returns b)
  show ?thesis
  proof (cases "b \<noteq> md5 (token_bytes io)")
    case True
    show ?thesis
    proof (cases "auth_record_failure cfg io c s")
      case (Inl e)
      with assms Returns True show ?thesis by (auto simp: auth_challenge_def Let_def)
    next
      case (Inr s1)
      with assms Returns True have "s' = s1" by (auto simp: auth_challenge_def Let_def)
      with auth_record_failure_keeps[OF Inr] show ?thesis by simp
    qed
  next
    case False
    with assms Returns show ?thesis
      by (auto simp: auth_challenge_def Let_def split: sum.splits)
  qed
qed

lemma auth_keeps:
  assumes "auth cfg encrypt md5 c io s = (evs, r, s')"
  shows "dom (admins s) \<subseteq> dom (admins s') \<and> dom (waitlist s) \<subseteq> dom (waitlist s')"
proof (cases "auth_must_wait io c s")
  case (Inl e)
  with assms show ?thesis by (auto simp: auth_def)
next
  case (Inr b)
  show ?thesis
  proof (cases b)
    case True
    with assms Inr show ?thesis by (auto simp: auth_def)
  next
    case False
    with assms Inr have "auth_challenge cfg encrypt md5 c io s = (evs, r, s')"
      by (simp add: auth_def)
    then show ?thesis by (rule auth_challenge_keeps)
  qed
qed

lemma logoff_keeps_others:
  assumes "logoff c' s = (evs, r, s')" and "c \<noteq> c'"
  shows "admins s' c = admins s c \<and> waitlist s' c = waitlist s c"
  using assms
  by (auto simp: logoff_def Let_def split: if_splits option.splits)

lemma admin_step_keeps:
  assumes "\<not> is_logoff_by c x"
  shows "(c \<in> dom (admins s) \<longrightarrow> c \<in> dom (admins (admin_step cfg encrypt md5 dbact x s)))
       \<and> (c \<in> dom (waitlist s) \<longrightarrow> c \<in> dom (waitlist (admin_step cfg encrypt md5 dbact x s)))"
proof (cases x)
  case (Disconnect c')
  then show ?thesis by simp
next
  case (Message c' io data)
  show ?thesis
  proof (cases data)
    case (JObj kv)
    let ?action = "map_of kv ''action''"
    consider (a) "?action = Some (JStr ''auth'')"
      | (l) "?action = Some (JStr ''logoff'')"
      | (o) "?action \<noteq> Some (JStr ''auth'')" "?action \<noteq> Some (JStr ''logoff'')"
      by blast
    then show ?thesis
    proof cases
      case a
      obtain evs r s' where res: "auth cfg encrypt md5 c' io s = (evs, r, s')"
        by (cases "auth cfg encrypt md5 c' io s") auto
      from auth_keeps[OF res] res a Message JObj show ?thesis
        by (auto simp: handle_message_def Let_def)
    next
      case l
      with assms Message JObj have ne: "c \<noteq> c'" by auto
      obtain evs r s' where res: "logoff c' s = (evs, r, s')"
        by (cases "logoff c' s") auto
      from logoff_keeps_others[OF res ne] res l Message JObj show ?thesis
        by (auto simp: handle_message_def Let_def)
    next
      case o
      with Message JObj show ?thesis
        by (auto simp: handle_message_def Let_def)
    qed
  qed (use Message in \<open>auto simp: handle_message_def\<close>)
qed

text \<open>
  C10. Over any sequence of handled messages and disconnects of any connections, if
  none of them is a logoff message of connection \<open>c\<close>, an entry of \<open>c\<close> in \<^verbatim>\<open>admins\<close>
  and an entry of \<open>c\<close> in \<^verbatim>\<open>waitlist\<close> are still there at the end; a disconnect in
  particular removes nothing.
\<close>

theorem entries_remain_without_logoff:
  assumes "\<not> list_ex (is_logoff_by c) ops"
  shows "(c \<in> dom (admins s) \<longrightarrow> c \<in> dom (admins (admin_steps cfg encrypt md5 dbact ops s)))
       \<and> (c \<in> dom (waitlist s) \<longrightarrow> c \<in> dom (waitlist (admin_steps cfg encrypt md5 dbact ops s)))"
  using assms
proof (induction ops arbitrary: s)
  case Nil
  then show ?case by simp
next
  case (Cons x xs)
  then have nx: "\<not> is_logoff_by c x" and nxs: "\<not> list_ex (is_logoff_by c) xs" by auto
  from admin_step_keeps[OF nx, of s cfg encrypt md5 dbact]
       Cons.IH[OF nxs, of "admin_step cfg encrypt md5 dbact x s"]
  show ?case by auto
qed

theorem entries_remain_without_logoff_witness:
  "1 \<in> dom (admins (admin_steps (CfAuth_getattr example_conf) rev id (\<lambda>a d. ([], None))
        [Message 1 (example_io 20 (Returns [1, 2, 3])) (JObj [(''action'', JStr ''auth''), (''data'', JObj [])]),
         Disconnect 1,
         Message 2 (example_io 30 (Returns [])) (JObj [(''action'', JStr ''logoff''), (''data'', JObj [])])]
        (example_state None None)))"
  using entries_remain_without_logoff [of 1
          "[Disconnect 1,
            Message 2 (example_io 30 (Returns [])) (JObj [(''action'', JStr ''logoff''), (''data'', JObj [])])]"
          "admin_step (CfAuth_getattr example_conf) rev id (\<lambda>a d. ([], None))
             (Message 1 (example_io 20 (Returns [1, 2, 3])) (JObj [(''action'', JStr ''auth''), (''data'', JObj [])]))
             (example_state None None)"
          "CfAuth_getattr example_conf" rev id "\<lambda>a d. ([], None)"]
  by (simp add: example_state_def example_io_def example_conf_def handle_message_def auth_def
        auth_must_wait_def auth_challenge_def CfAuth_getattr_def Let_def)

section \<open>Persistence handlers: results\<close>

lemma code_loop_some_no_row:
  "code_loop tbl u rng i = Some code \<Longrightarrow> find (\<lambda>r. vc_user_id r = u) tbl = None"
proof (induction rule: code_loop.raw_induct[rotated 1, consumes 1])
  case (1 code_loop tbl user_id rng i y)
  then show ?case by (auto split: option.splits)
qed

lemma code_loop_never_ends:
  assumes "find (\<lambda>r. vc_user_id r = u) tbl = Some row"
  shows "code_loop tbl u rng i = None"
proof (cases "code_loop tbl u rng i")
  case None
  then show ?thesis .
next
  case (Some code)
  from code_loop_some_no_row[OF Some] assms show ?thesis by simp
qed

lemma find_user_row:
  assumes "r \<in> set tbl" and "vc_user_id r = u"
  shows "\<exists>row. find (\<lambda>r. vc_user_id r = u) tbl = Some row"
proof (cases "find (\<lambda>r. vc_user_id r = u) tbl")
  case None
  with assms show ?thesis by (auto simp: find_None_iff)
next
  case (Some a)
  then show ?thesis by blast
qed

text \<open>
  C2. For a user who already has a verification code in the table,
  \<^verbatim>\<open>make_verification_code\<close> does not return: the loop's query finds that row on
  every pass, and the deletion of the old code is never reached.
\<close>

theorem make_verification_code_existing_never_returns:
  assumes "r \<in> set tbl" and "vc_user_id r = user_id"
  shows "make_verification_code days hours now rng new_id created tbl user_id = None"
proof -
  from find_user_row[OF assms] obtain row
    where "find (\<lambda>r. vc_user_id r = user_id) tbl = Some row" by blast
  then have "code_loop tbl user_id rng 0 = None" by (rule code_loop_never_ends)
  then show ?thesis by (simp add: make_verification_code_def)
qed

theorem make_verification_code_existing_witness:
  "make_verification_code 1 0 0 (\<lambda>i. ''code'') 2 0
     [\<lparr>vc_id = 1, vc_created_at = 0, vc_user_id = 7, vc_code = ''old'', vc_expires = 5\<rparr>] 7 = None"
  by (rule make_verification_code_existing_never_returns
        [of "\<lparr>vc_id = 1, vc_created_at = 0, vc_user_id = 7, vc_code = ''old'', vc_expires = 5\<rparr>"])
     simp_all

text \<open>
  For a user with no code in the table the call does return, and afterwards the table
  holds exactly one row for the user, with the first drawn code.
\<close>

lemma make_verification_code_fresh_user:
  assumes "find (\<lambda>r. vc_user_id r = user_id) tbl = None"
  shows "\<exists>row tbl'. make_verification_code days hours now rng new_id created tbl user_id = Some (row, tbl')
           \<and> filter (\<lambda>r. vc_user_id r = user_id) tbl' = [row] \<and> vc_code row = rng 0"
proof -
  have "code_loop tbl user_id rng 0 = Some (rng 0)"
    using assms by (subst code_loop.simps) simp
  moreover have "filter (\<lambda>r. vc_user_id r = user_id) (filter (\<lambda>r. vc_user_id r \<noteq> user_id) tbl) = []"
    by (induction tbl) auto
  ultimately show ?thesis
    by (simp add: make_verification_code_def Let_def)
qed

lemma email_get_exists:
  "email_exists db email \<Longrightarrow> \<exists>user. email_get db email = Inr user"
  by (auto simp: email_exists_def email_get_def split: option.splits)

text \<open>
  C8. For an email that resolves to a user, \<^verbatim>\<open>session_new\<close> fails with \<^verbatim>\<open>TypeError\<close>
  whatever the password and whatever is stored: \<^verbatim>\<open>get_password\<close> is called without
  its \<^verbatim>\<open>user_id\<close> argument. No token is issued and no password-incorrect error is
  raised.
\<close>

theorem session_new_existing_user_type_error:
  assumes "email_exists db email"
  shows "session_new crypt_verify new_id created db email password = Inl TypeError"
  using assms email_get_exists[OF assms]
  by (auto simp: session_new_def)

theorem session_new_existing_user_type_error_witness:
  "session_new (\<lambda>p st. Inr True) 5 0 example_db ''a@b.c'' ''h'' = Inl TypeError"
  using session_new_existing_user_type_error [of example_db "''a@b.c''" "\<lambda>p st. Inr True" 5 0 "''h''"]
  by (simp add: example_db_def email_exists_def)

lemma session_new_unknown_email:
  "\<not> email_exists db email \<Longrightarrow>
     session_new crypt_verify new_id created db email password = Inl (UserDoesNotExist email)"
  by (simp add: session_new_def)

lemma get_password_stored_key_error:
  "find (\<lambda>r. p_user_id r = user_id) (passwords db) = Some r \<Longrightarrow> get_password db [user_id] = Inl KeyError"
  by simp

end
